theory Spec2Isabelle
  imports Main
begin

section \<open>The benchmarking harness \<^verbatim>\<open>scripts/run_benchmarks.py\<close>\<close>

text \<open>
  The harness runs seven toolchain commands on a benchmark cell, parses the text two of
  them print, and writes one JSON report. The functions of the script are embedded one by
  one, under their own names.

  A Python \<^verbatim>\<open>str\<close> is a sequence of code points. Here a text is a \<^typ>\<open>string\<close>, and a
  \<^typ>\<open>char\<close> stands for the code point of the same number, so that \<^const>\<open>length\<close> counts
  characters as \<^verbatim>\<open>len\<close> does. The texts covered are those of code points below 256; the
  character tables below (white space, line boundaries, decimal digits) are the
  interpreter's tables on that range.
\<close>

subsection \<open>Python's string primitives\<close>

text \<open>\<^verbatim>\<open>str(n)\<close> for an integer: decimal digits, a minus sign for a negative number.\<close>

definition digit_char :: "nat \<Rightarrow> char" where
  "digit_char d = ''0123456789'' ! (d mod 10)"

fun str_nat :: "nat \<Rightarrow> string" where
  "str_nat n = (if n < 10 then [digit_char n] else str_nat (n div 10) @ [digit_char (n mod 10)])"

declare str_nat.simps [simp del]

definition str_int :: "int \<Rightarrow> string" where
  "str_int i = (if i < 0 then CHR ''-'' # str_nat (nat (- i)) else str_nat (nat i))"

text \<open>The slice \<^verbatim>\<open>text[:limit]\<close>: a negative bound counts from the end of the text.\<close>

definition slice_to :: "string \<Rightarrow> int \<Rightarrow> string" where
  "slice_to text limit =
     (if 0 \<le> limit then take (nat limit) text
      else take (nat (int (length text) + limit)) text)"

subsection \<open>The text truncator\<close>

definition TRUNCATE_LIMIT :: int where
  "TRUNCATE_LIMIT = 2000"

text \<open>
  \<^verbatim>\<open>truncate(text, limit)\<close>: \<^verbatim>\<open>None\<close> stays \<^verbatim>\<open>None\<close>, a text of at most \<^verbatim>\<open>limit\<close>
  characters is returned as it is, a longer one is cut and gets the marker
  \<^verbatim>\<open>f"{trimmed}\n...[truncated {omitted} chars]"\<close>.
\<close>

definition truncate :: "string option \<Rightarrow> int \<Rightarrow> string option" where
  "truncate text limit =
     (case text of
        None \<Rightarrow> None
      | Some t \<Rightarrow>
          if int (length t) \<le> limit then Some t
          else
            let trimmed = slice_to t limit;
                omitted = int (length t) - limit
            in Some (trimmed @ [CHR 0x0A] @ ''...[truncated '' @ str_int omitted @ '' chars]''))"

subsection \<open>Facts about the primitives\<close>

lemma str_nat_nonempty: "str_nat n \<noteq> []"
  by (subst str_nat.simps) simp

subsection \<open>Properties of the truncator\<close>

text \<open>
  Claim C3. For every text \<open>T\<close> and every limit \<open>L \<ge> 0\<close>: when \<open>T\<close> has at most \<open>L\<close>
  characters the truncator returns \<open>T\<close> unchanged; when it has more, the truncator returns
  the first \<open>L\<close> characters of \<open>T\<close>, a newline, and the marker that names the number of
  characters left out, which is the length of the rest of \<open>T\<close>, that is \<open>len(T) - L\<close>; the
  output then has \<open>L\<close> characters plus the 22 fixed characters of the marker plus the
  digits of that number. Lengths count characters.
\<close>

theorem truncate_contract:
  assumes "0 \<le> L"
  shows "(int (length T) \<le> L \<longrightarrow> truncate (Some T) L = Some T) \<and>
         (L < int (length T) \<longrightarrow>
            truncate (Some T) L =
              Some (take (nat L) T @ [CHR 0x0A] @ ''...[truncated '' @
                    str_nat (length (drop (nat L) T)) @ '' chars]'') \<and>
            length (drop (nat L) T) = length T - nat L \<and>
            0 < length (drop (nat L) T) \<and>
            (\<forall>r. truncate (Some T) L = Some r \<longrightarrow>
               length r = nat L + 22 + length (str_nat (length T - nat L))))"
proof (intro conjI impI)
  assume "int (length T) \<le> L"
  then show "truncate (Some T) L = Some T"
    by (simp add: truncate_def)
next
  assume gt: "L < int (length T)"
  show eq: "truncate (Some T) L =
      Some (take (nat L) T @ [CHR 0x0A] @ ''...[truncated '' @
            str_nat (length (drop (nat L) T)) @ '' chars]'')"
  proof -
    have "\<not> int (length T) \<le> L" "\<not> int (length T) - L < 0"
      using gt by simp_all
    then show ?thesis
      using assms by (simp add: truncate_def slice_to_def str_int_def Let_def nat_diff_distrib)
  qed
  show "length (drop (nat L) T) = length T - nat L"
    by simp
  show "0 < length (drop (nat L) T)"
    using assms gt by simp
  have ln: "nat L \<le> length T"
    using assms gt by linarith
  show "\<forall>r. truncate (Some T) L = Some r \<longrightarrow>
          length r = nat L + 22 + length (str_nat (length T - nat L))"
    unfolding eq using ln by simp
qed

theorem truncate_contract_witness:
  "truncate (Some ''abcdefghijkl'') 2 = Some (''ab'' @ [CHR 0x0A] @ ''...[truncated 10 chars]'') \<and>
   truncate (Some ''ab'') 2 = Some ''ab''"
proof -
  have h: "(0::int) \<le> 2" by simp
  have d: "str_nat (length (drop (nat 2) ''abcdefghijkl'')) = ''10''"
    by (simp add: str_nat.simps digit_char_def)
  have "truncate (Some ''abcdefghijkl'') 2 =
      Some (take (nat 2) ''abcdefghijkl'' @ [CHR 0x0A] @ ''...[truncated '' @
            str_nat (length (drop (nat 2) ''abcdefghijkl'')) @ '' chars]'')"
    using truncate_contract [OF h, of "''abcdefghijkl''"] by simp
  moreover have "truncate (Some ''ab'') 2 = Some ''ab''"
    using truncate_contract [OF h, of "''ab''"] by simp
  ultimately show ?thesis
    unfolding d by simp
qed

end
